theory Spec2Isabelle
  imports Main "HOL-Library.Word"
begin

unbundle bit_operations_syntax

section \<open>ESP8266 WiFi shim (src/esp8266/esp_wifi.c)\<close>

text \<open>
  The file translates portable WiFi configuration into calls of the vendor SDK and vendor
  events into portable events. The SDK is closed: every SDK function appears here as an
  oracle that answers a call, and every call made is appended to a trace, so that
  "the call is (never) invoked" is a statement about the trace. \<open>LOG\<close> lines are
  left out: they change neither the state nor a result.
\<close>

subsection \<open>Vendor and portable types\<close>

type_synonym u8 = "8 word"
type_synonym u32 = "32 word"

text \<open>
  Modelled from the spec: the vendor header with the opmode constants is not among the
  sources. The spec calls the opmode a bitmask over off / station / access-point /
  station+access-point: off has no bit, station and access-point one bit each, the
  combined mode both.
\<close>

definition NULL_MODE :: u8 where "NULL_MODE = 0"
definition STATION_MODE :: u8 where "STATION_MODE = 1"
definition SOFTAP_MODE :: u8 where "SOFTAP_MODE = 2"
definition STATIONAP_MODE :: u8 where "STATIONAP_MODE = 3"

text \<open>
  Modelled from the spec: the vendor header with \<open>LIMIT_RATE_MASK_STA\<close> is not among
  the sources; the spec calls it the "station rate limiting" bit of the enable mask.
\<close>

definition LIMIT_RATE_MASK_STA :: u8 where "LIMIT_RATE_MASK_STA = 1"

text \<open>The vendor's enumerations. The file uses their names only, never their numbers.\<close>

datatype wifi_if = STATION_IF | SOFTAP_IF

datatype rc_limit = RC_LIMIT_11B | RC_LIMIT_11G | RC_LIMIT_11N

datatype sleep_type = NONE_SLEEP_T | LIGHT_SLEEP_T | MODEM_SLEEP_T

datatype auth_mode =
  AUTH_OPEN | AUTH_WEP | AUTH_WPA_PSK | AUTH_WPA2_PSK | AUTH_WPA_WPA2_PSK | AUTH_MAX

datatype STATUS = OK | FAIL | PENDING | BUSY | CANCEL

record ip_info =
  ip :: u32
  netmask :: u32
  gw :: u32

text \<open>\<open>struct station_config\<close> and \<open>struct softap_config\<close>: a character
  array holds the bytes before its first NUL.\<close>

record station_config =
  sc_ssid :: string
  sc_password :: string
  sc_bssid_set :: bool
  sc_bssid :: "u8 list"

record softap_config =
  ac_ssid :: string
  ac_password :: string
  ac_channel :: u8
  ac_authmode :: auth_mode
  ac_ssid_hidden :: bool
  ac_max_connection :: u8
  ac_beacon_interval :: nat

record dhcps_lease =
  lease_enable :: bool
  start_ip :: u32
  end_ip :: u32

record bss_info =
  bss_bssid :: "u8 list"
  bss_ssid :: string
  bss_channel :: u8
  bss_rssi :: int
  bss_authmode :: auth_mode

text \<open>
  Modelled from the spec: \<open>mgos_wifi_hal.h\<close> and \<open>mgos_wifi.h\<close> are not among the
  sources. The portable event record is the spec's tagged union; its zero value (no event)
  is \<open>None\<close> of the option type. The scan result is the spec's entry of ssid, bssid,
  channel, signal strength and auth mode, the auth mode one of open, WEP, WPA-PSK, WPA2-PSK
  and WPA/WPA2-PSK, of which open is the zero value.
\<close>

datatype mgos_wifi_dev_event_info =
  MGOS_WIFI_EV_STA_DISCONNECTED u8
| MGOS_WIFI_EV_STA_CONNECTED "u8 list" u8
| MGOS_WIFI_EV_STA_IP_ACQUIRED
| MGOS_WIFI_EV_AP_STA_CONNECTED "u8 list"
| MGOS_WIFI_EV_AP_STA_DISCONNECTED "u8 list"

datatype mgos_wifi_auth_mode =
  MGOS_WIFI_AUTH_MODE_OPEN | MGOS_WIFI_AUTH_MODE_WEP | MGOS_WIFI_AUTH_MODE_WPA_PSK
| MGOS_WIFI_AUTH_MODE_WPA2_PSK | MGOS_WIFI_AUTH_MODE_WPA_WPA2_PSK

record mgos_wifi_scan_result =
  res_ssid :: string
  res_bssid :: "u8 list"
  res_auth_mode :: mgos_wifi_auth_mode
  res_channel :: u8
  res_rssi :: int

record mgos_net_ip_info =
  net_ip :: u32
  net_netmask :: u32
  net_gw :: u32

subsection \<open>Effects: the trace of calls leaving the file\<close>

datatype effect =
  Wifi_set_opmode_current u8
| Wifi_set_sleep_type sleep_type
| Wifi_station_disconnect
| Wifi_set_user_rate_limit rc_limit wifi_if u8 u8
| Wifi_get_user_limit_rate_mask
| Wifi_set_user_limit_rate_mask u8
| Wifi_station_dhcpc_stop
| Wifi_set_ip_info wifi_if ip_info
| Wifi_get_ip_info wifi_if
| Wifi_station_set_config_current station_config
| Wifi_station_set_auto_connect nat
| Wifi_station_set_reconnect_policy bool
| Wifi_station_set_hostname string
| Wifi_station_set_enterprise_username string
| Wifi_station_set_enterprise_identity string
| Wifi_station_set_enterprise_password string
| Wifi_station_clear_enterprise_password
| Wifi_station_set_enterprise_ca_cert string
| Wifi_station_clear_enterprise_ca_cert
| Wifi_station_set_enterprise_cert_key string string
| Wifi_station_clear_enterprise_new_password
| Wifi_station_set_enterprise_disable_time_check bool
| Wifi_station_set_wpa2_enterprise_auth bool
| Cs_read_file string
| Wifi_softap_set_config_current softap_config
| Wifi_softap_dhcps_stop
| Wifi_softap_set_dhcps_lease dhcps_lease
| Wifi_softap_set_dhcps_offer_option
| Wifi_softap_dhcps_start
| Mgos_wifi_dev_event_cb mgos_wifi_dev_event_info
| Mgos_wifi_dev_scan_cb int "mgos_wifi_scan_result list option"

text \<open>The answers of the SDK. Each field is the result of the SDK function of that name,
  as a function of the arguments of the call; the last six are the rate identifiers of the
  vendor header, which the limiter uses as defaults.\<close>

record sdk =
  wifi_set_opmode_current :: "u8 \<Rightarrow> bool"
  wifi_set_user_rate_limit :: "rc_limit \<Rightarrow> wifi_if \<Rightarrow> u8 \<Rightarrow> u8 \<Rightarrow> bool"
  wifi_get_user_limit_rate_mask :: u8
  wifi_set_user_limit_rate_mask :: "u8 \<Rightarrow> bool"
  wifi_set_ip_info :: "wifi_if \<Rightarrow> ip_info \<Rightarrow> bool"
  wifi_get_ip_info :: "wifi_if \<Rightarrow> ip_info option"
  wifi_station_set_config_current :: "station_config \<Rightarrow> bool"
  wifi_station_set_hostname :: "string \<Rightarrow> bool"
  wifi_softap_set_config_current :: "softap_config \<Rightarrow> bool"
  wifi_softap_set_dhcps_lease :: "dhcps_lease \<Rightarrow> bool"
  wifi_softap_dhcps_start :: bool
  RATE_11B_B11M :: u8
  RATE_11B_B1M :: u8
  RATE_11G_G54M :: u8
  RATE_11G_B1M :: u8
  RATE_11N_MCS7S :: u8
  RATE_11N_B1M :: u8

text \<open>\<open>struct mgos_config_wifi\<close>, \<open>mgos_config_wifi_sta\<close> and
  \<open>mgos_config_wifi_ap\<close>, with the fields the file reads. An \<open>int\<close> is a 32-bit
  word; a \<open>const char *\<close> that the file tests against \<open>NULL\<close> or passes to
  \<open>mgos_conf_str_empty\<close> is a \<open>string option\<close>, \<open>None\<close> the null pointer.\<close>

record mgos_config_wifi =
  tx_rate_limit_11b :: u32
  tx_rate_limit_11g :: u32
  tx_rate_limit_11n :: u32

record mgos_config_wifi_sta =
  sta_enable :: bool
  sta_ssid :: string
  sta_pass :: "string option"
  sta_user :: "string option"
  sta_anon_identity :: "string option"
  sta_cert :: "string option"
  sta_key :: "string option"
  sta_ca_cert :: "string option"
  sta_ip :: "string option"
  sta_netmask :: "string option"
  sta_gw :: "string option"
  sta_dhcp_hostname :: "string option"
  sta_bssid :: "string option"

record mgos_config_wifi_ap =
  ap_enable :: bool
  ap_ssid :: string
  ap_pass :: "string option"
  ap_hidden :: u32
  ap_channel :: u32
  ap_max_connections :: u32
  ap_ip :: string
  ap_netmask :: string
  ap_gw :: "string option"
  ap_dhcp_start :: string
  ap_dhcp_end :: string

text \<open>What the file takes from outside the SDK: lwIP's \<open>ipaddr_addr\<close>, the
  device OS (\<open>mgos_expand_mac_address_placeholders\<close>, the system configuration,
  \<open>cs_read_file\<close>), whether \<open>calloc\<close> of so many entries succeeds, the width of
  the portable scan result's \<open>ssid\<close> array, and the build option
  \<open>MGOS_ESP8266_WIFI_ENABLE_WPAENT\<close>.\<close>

record sys =
  ipaddr_addr :: "string \<Rightarrow> u32"
  mgos_expand_mac_address_placeholders :: "string \<Rightarrow> string"
  mgos_sys_config_get_wifi :: mgos_config_wifi
  mgos_sys_config_get_device_id :: "string option"
  cs_read_file :: "string \<Rightarrow> string option"
  calloc_ok :: "nat \<Rightarrow> bool"
  sizeof_res_ssid :: nat
  MGOS_ESP8266_WIFI_ENABLE_WPAENT :: bool

text \<open>The file's own state: \<open>s_cur_mode\<close>, the cached enterprise PEM buffers of
  \<open>mgos_wifi_dev_sta_setup\<close>, and the trace.\<close>

record state =
  s_cur_mode :: u8
  s_ca_cert_pem :: "string option"
  s_cert_pem :: "string option"
  s_key_pem :: "string option"
  trace :: "effect list"

definition emit :: "effect \<Rightarrow> state \<Rightarrow> state" where
  "emit e s = s\<lparr>trace := trace s @ [e]\<rparr>"

text \<open>The calls made between an earlier state and a later one.\<close>

definition calls_during :: "state \<Rightarrow> state \<Rightarrow> effect list" where
  "calls_during s s' = drop (length (trace s)) (trace s')"

subsection \<open>Mode manager\<close>

definition mgos_wifi_set_mode :: "sdk \<Rightarrow> u8 \<Rightarrow> state \<Rightarrow> bool \<times> state" where
  "mgos_wifi_set_mode k mode s =
     (let s1 = emit (Wifi_set_opmode_current mode) s in
      if \<not> wifi_set_opmode_current k mode then (False, s1)
      else
        let s2 = s1\<lparr>s_cur_mode := mode\<rparr> in
        if mode = STATION_MODE then (True, emit (Wifi_set_sleep_type NONE_SLEEP_T) s2)
        else (True, s2))"

definition mgos_wifi_add_mode :: "sdk \<Rightarrow> u8 \<Rightarrow> state \<Rightarrow> bool \<times> state" where
  "mgos_wifi_add_mode k mode s =
     (if s_cur_mode s = mode \<or> s_cur_mode s = STATIONAP_MODE then (True, s)
      else
        let mode' =
          (if (s_cur_mode s = SOFTAP_MODE \<and> mode = STATION_MODE) \<or>
              (s_cur_mode s = STATION_MODE \<and> mode = SOFTAP_MODE)
           then STATIONAP_MODE else mode)
        in mgos_wifi_set_mode k mode' s)"

definition mgos_wifi_remove_mode :: "sdk \<Rightarrow> u8 \<Rightarrow> state \<Rightarrow> bool \<times> state" where
  "mgos_wifi_remove_mode k mode s =
     (if (mode = STATION_MODE \<and> s_cur_mode s = SOFTAP_MODE) \<or>
         (mode = SOFTAP_MODE \<and> s_cur_mode s = STATION_MODE) \<or>
         s_cur_mode s = NULL_MODE
      then (True, s)
      else
        let mode' =
          (if mode = STATIONAP_MODE \<or>
              (mode = STATION_MODE \<and> s_cur_mode s = STATION_MODE) \<or>
              (mode = SOFTAP_MODE \<and> s_cur_mode s = SOFTAP_MODE)
           then NULL_MODE
           else if mode = STATION_MODE then SOFTAP_MODE
           else STATION_MODE)
        in mgos_wifi_set_mode k mode' s)"

subsection \<open>Event translator\<close>

text \<open>\<open>System_Event_t\<close>: the event identifier with the fields of \<open>event_info\<close>
  that the file reads for it. \<open>EVENT_OTHER\<close> stands for every identifier the
  \<open>switch\<close> does not list.\<close>

datatype System_Event =
  EVENT_STAMODE_CONNECTED "u8 list" u8
| EVENT_STAMODE_DISCONNECTED u8
| EVENT_STAMODE_AUTHMODE_CHANGE auth_mode auth_mode
| EVENT_STAMODE_GOT_IP
| EVENT_STAMODE_DHCP_TIMEOUT
| EVENT_SOFTAPMODE_STACONNECTED "u8 list"
| EVENT_SOFTAPMODE_STADISCONNECTED "u8 list"
| EVENT_SOFTAPMODE_PROBEREQRECVED
| EVENT_MAX
| EVENT_OTHER u32

text \<open>The \<open>switch\<close> of \<open>wifi_changed_cb\<close>: the event record \<open>dei\<close> it fills
  (\<open>None\<close> while \<open>dei.ev\<close> is 0) and the state after its side effects.\<close>

fun translate_event :: "System_Event \<Rightarrow> state \<Rightarrow> mgos_wifi_dev_event_info option \<times> state" where
  "translate_event (EVENT_STAMODE_DISCONNECTED reason) s =
     (Some (MGOS_WIFI_EV_STA_DISCONNECTED reason), s)"
| "translate_event (EVENT_STAMODE_CONNECTED bssid chan) s =
     (Some (MGOS_WIFI_EV_STA_CONNECTED bssid chan), s)"
| "translate_event EVENT_STAMODE_GOT_IP s = (Some MGOS_WIFI_EV_STA_IP_ACQUIRED, s)"
| "translate_event (EVENT_SOFTAPMODE_STACONNECTED mac) s =
     (Some (MGOS_WIFI_EV_AP_STA_CONNECTED mac), s)"
| "translate_event (EVENT_SOFTAPMODE_STADISCONNECTED mac) s =
     (Some (MGOS_WIFI_EV_AP_STA_DISCONNECTED mac), s)"
| "translate_event (EVENT_STAMODE_AUTHMODE_CHANGE old_mode new_mode) s =
     (None, if old_mode \<noteq> AUTH_OPEN \<and> new_mode = AUTH_OPEN
            then emit Wifi_station_disconnect s else s)"
| "translate_event EVENT_SOFTAPMODE_PROBEREQRECVED s = (None, s)"
| "translate_event EVENT_STAMODE_DHCP_TIMEOUT s = (None, s)"
| "translate_event EVENT_MAX s = (None, s)"
| "translate_event (EVENT_OTHER n) s = (None, s)"

definition wifi_changed_cb :: "System_Event \<Rightarrow> state \<Rightarrow> state" where
  "wifi_changed_cb evt s =
     (case translate_event evt s of
        (None, s1) \<Rightarrow> s1
      | (Some dei, s1) \<Rightarrow> emit (Mgos_wifi_dev_event_cb dei) s1)"

subsection \<open>Rate limiter\<close>

text \<open>\<open>(uint8_t)(v >> 8)\<close> and \<open>(uint8_t)(v)\<close>: bits 8 to 15 and bits 0 to 7 of
  the configured value.\<close>

definition limit_max :: "u32 \<Rightarrow> u8" where
  "limit_max v = ucast (drop_bit 8 v)"

definition limit_min :: "u32 \<Rightarrow> u8" where
  "limit_min v = ucast v"

definition esp_wifi_set_rate_limits :: "sdk \<Rightarrow> mgos_config_wifi \<Rightarrow> state \<Rightarrow> state" where
  "esp_wifi_set_rate_limits k cfg s =
     (let enable_rate_limit = False; valid_rate_limit = True;
          limit_11b_max = (if tx_rate_limit_11b cfg \<noteq> - 1
                           then limit_max (tx_rate_limit_11b cfg) else RATE_11B_B11M k);
          limit_11b_min = (if tx_rate_limit_11b cfg \<noteq> - 1
                           then limit_min (tx_rate_limit_11b cfg) else RATE_11B_B1M k);
          enable_rate_limit = (if tx_rate_limit_11b cfg \<noteq> - 1 then True else enable_rate_limit);
          s = emit (Wifi_set_user_rate_limit RC_LIMIT_11B STATION_IF limit_11b_max limit_11b_min) s;
          valid_rate_limit =
            (if \<not> wifi_set_user_rate_limit k RC_LIMIT_11B STATION_IF limit_11b_max limit_11b_min
             then False else valid_rate_limit);
          limit_11g_max = (if tx_rate_limit_11g cfg \<noteq> - 1
                           then limit_max (tx_rate_limit_11g cfg) else RATE_11G_G54M k);
          limit_11g_min = (if tx_rate_limit_11g cfg \<noteq> - 1
                           then limit_min (tx_rate_limit_11g cfg) else RATE_11G_B1M k);
          enable_rate_limit = (if tx_rate_limit_11g cfg \<noteq> - 1 then True else enable_rate_limit);
          s = emit (Wifi_set_user_rate_limit RC_LIMIT_11G STATION_IF limit_11g_max limit_11g_min) s;
          valid_rate_limit =
            (if \<not> wifi_set_user_rate_limit k RC_LIMIT_11G STATION_IF limit_11g_max limit_11g_min
             then False else valid_rate_limit);
          limit_11n_max = (if tx_rate_limit_11n cfg \<noteq> - 1
                           then limit_max (tx_rate_limit_11n cfg) else RATE_11N_MCS7S k);
          limit_11n_min = (if tx_rate_limit_11n cfg \<noteq> - 1
                           then limit_min (tx_rate_limit_11n cfg) else RATE_11N_B1M k);
          enable_rate_limit = (if tx_rate_limit_11n cfg \<noteq> - 1 then True else enable_rate_limit);
          s = emit (Wifi_set_user_rate_limit RC_LIMIT_11N STATION_IF limit_11n_max limit_11n_min) s;
          valid_rate_limit =
            (if \<not> wifi_set_user_rate_limit k RC_LIMIT_11N STATION_IF limit_11n_max limit_11n_min
             then False else valid_rate_limit);
          s = emit Wifi_get_user_limit_rate_mask s;
          limit_mask = wifi_get_user_limit_rate_mask k;
          limit_mask = (if enable_rate_limit \<and> valid_rate_limit
                        then limit_mask OR LIMIT_RATE_MASK_STA
                        else limit_mask AND NOT LIMIT_RATE_MASK_STA)
      in emit (Wifi_set_user_limit_rate_mask limit_mask) s)"

subsection \<open>C library and device OS helpers\<close>

text \<open>\<open>mgos_conf_str_empty\<close> belongs to the device OS and is not among the sources: a
  string is empty when the pointer is null or the string has no character.\<close>

definition mgos_conf_str_empty :: "string option \<Rightarrow> bool" where
  "mgos_conf_str_empty s = (case s of None \<Rightarrow> True | Some x \<Rightarrow> x = [])"

text \<open>The string at a configuration pointer. The file reads it only where
  \<open>mgos_conf_str_empty\<close> has said that the pointer is not null.\<close>

definition c_str :: "string option \<Rightarrow> string" where
  "c_str p = (case p of Some x \<Rightarrow> x | None \<Rightarrow> [])"

text \<open>\<open>strncpy\<close> into a zeroed array of \<open>n\<close> bytes. The vendor's
  \<open>ssid\<close> arrays have 32 bytes and its \<open>password\<close> arrays 64.\<close>

definition strncpy :: "nat \<Rightarrow> string \<Rightarrow> string" where
  "strncpy n src = take n src"

text \<open>
  \<open>sscanf(s, "%02x:%02x:%02x:%02x:%02x:%02x", ...)\<close> of the C library. Each \<open>%02x\<close>
  skips white space and then reads at most two characters of an optionally signed
  hexadecimal number: a sign and one hex digit, one hex digit, or two hex digits. A sign
  counts towards the two characters, and so does the prefix \<open>0x\<close>: a field that is just
  the prefix is read as a whole and converts to 0, as the GNU C library does it. A \<open>:\<close>
  of the format must be the next character of the input. The scan stops at the first
  directive that fails and ignores what follows the sixth field; the input ends at its
  first NUL. \<open>sscanf_bssid\<close> gives the values converted, in order, so its length is
  the number of conversions: the value \<open>sscanf\<close> returns is 6 exactly when that length
  is 6 (with no conversion it returns 0 or \<open>EOF\<close>).
\<close>

definition isspace :: "char \<Rightarrow> bool" where
  "isspace c = (of_char c \<in> {32, 9, 10, 11, 12, 13 :: nat})"

definition hex_val :: "char \<Rightarrow> nat option" where
  "hex_val c =
     (let n = of_char c :: nat in
      if 48 \<le> n \<and> n \<le> 57 then Some (n - 48)
      else if 97 \<le> n \<and> n \<le> 102 then Some (n - 87)
      else if 65 \<le> n \<and> n \<le> 70 then Some (n - 55)
      else None)"

definition scan_02x :: "string \<Rightarrow> (u32 \<times> string) option" where
  "scan_02x s =
     (case dropWhile isspace s of
        [] \<Rightarrow> None
      | c1 # r1 \<Rightarrow>
          if c1 = CHR ''+'' \<or> c1 = CHR ''-'' then
            (case r1 of
               [] \<Rightarrow> None
             | c2 # r2 \<Rightarrow>
                 (case hex_val c2 of
                    None \<Rightarrow> None
                  | Some d \<Rightarrow> Some (if c1 = CHR ''-'' then - of_nat d else of_nat d, r2)))
          else
            (case hex_val c1 of
               None \<Rightarrow> None
             | Some d1 \<Rightarrow>
                 (case r1 of
                    [] \<Rightarrow> Some (of_nat d1, [])
                  | c2 # r2 \<Rightarrow>
                      if c1 = CHR ''0'' \<and> (c2 = CHR ''x'' \<or> c2 = CHR ''X'') then Some (0, r2)
                      else
                        (case hex_val c2 of
                           None \<Rightarrow> Some (of_nat d1, r1)
                         | Some d2 \<Rightarrow> Some (of_nat (16 * d1 + d2), r2)))))"

fun scan_fields :: "nat \<Rightarrow> string \<Rightarrow> u32 list" where
  "scan_fields 0 s = []"
| "scan_fields (Suc n) s =
     (case scan_02x s of
        None \<Rightarrow> []
      | Some (v, rest) \<Rightarrow>
          if n = 0 then [v]
          else (case rest of
                  [] \<Rightarrow> [v]
                | c # rest' \<Rightarrow> if c = CHR '':'' then v # scan_fields n rest' else [v]))"

definition sscanf_bssid :: "string \<Rightarrow> u32 list" where
  "sscanf_bssid s = scan_fields 6 (takeWhile (\<lambda>c. c \<noteq> CHR 0x00) s)"

subsection \<open>Station setup\<close>

text \<open>
  The station setup either returns a boolean or does not return: \<open>None\<close> is the run
  that ends in the enterprise block, where the code passes \<open>cfg->user\<close> to
  \<open>strlen\<close> without a null check.
\<close>

text \<open>The enterprise block of \<open>mgos_wifi_dev_sta_setup\<close> (the body of its
  \<open>if\<close> on \<open>cert\<close> and \<open>user\<close> when the build has
  \<open>MGOS_ESP8266_WIFI_ENABLE_WPAENT\<close>). Its first statement takes
  \<open>strlen(cfg->user)\<close>; with a null \<open>user\<close> nothing further is called.\<close>

definition sta_setup_wpaent ::
  "sys \<Rightarrow> mgos_config_wifi_sta \<Rightarrow> state \<Rightarrow> bool option \<times> state" where
  "sta_setup_wpaent e cfg s =
     (case sta_user cfg of
        None \<Rightarrow> (None, s)
      | Some user \<Rightarrow>
          (let s = emit (Wifi_station_set_enterprise_username user) s;
               s = (if \<not> mgos_conf_str_empty (sta_anon_identity cfg)
                    then emit (Wifi_station_set_enterprise_identity (c_str (sta_anon_identity cfg))) s
                    else emit (Wifi_station_set_enterprise_identity user) s);
               s = (case sta_pass cfg of
                      Some p \<Rightarrow> if p \<noteq> [] then emit (Wifi_station_set_enterprise_password p) s
                                else emit Wifi_station_clear_enterprise_password s
                    | None \<Rightarrow> emit Wifi_station_clear_enterprise_password s);
               ca = (case sta_ca_cert cfg of
                       Some path \<Rightarrow>
                         if path \<noteq> [] then
                           (let s = emit (Cs_read_file path) s;
                                s = s\<lparr>s_ca_cert_pem := cs_read_file e path\<rparr>
                            in case cs_read_file e path of
                                 None \<Rightarrow> (False, s)
                               | Some pem \<Rightarrow> (True, emit (Wifi_station_set_enterprise_ca_cert pem) s))
                         else (True, emit Wifi_station_clear_enterprise_ca_cert s)
                     | None \<Rightarrow> (True, emit Wifi_station_clear_enterprise_ca_cert s))
           in if \<not> fst ca then (Some False, snd ca)
              else
                let s = snd ca;
                    ck = (case (sta_cert cfg, sta_key cfg) of
                            (Some cert, Some key) \<Rightarrow>
                              if cert \<noteq> [] \<and> key \<noteq> [] then
                                (let s = emit (Cs_read_file cert) s;
                                     s = s\<lparr>s_cert_pem := cs_read_file e cert\<rparr>
                                 in case cs_read_file e cert of
                                      None \<Rightarrow> (False, s)
                                    | Some cert_pem \<Rightarrow>
                                        (let s = emit (Cs_read_file key) s;
                                             s = s\<lparr>s_key_pem := cs_read_file e key\<rparr>
                                         in case cs_read_file e key of
                                              None \<Rightarrow> (False, s)
                                            | Some key_pem \<Rightarrow>
                                                (True, emit (Wifi_station_set_enterprise_cert_key
                                                               cert_pem key_pem) s)))
                              else (True, s)
                          | _ \<Rightarrow> (True, s))
                in if \<not> fst ck then (Some False, snd ck)
                   else
                     let s = snd ck;
                         s = emit Wifi_station_clear_enterprise_new_password s;
                         s = emit (Wifi_station_set_enterprise_disable_time_check True) s;
                         s = emit (Wifi_station_set_wpa2_enterprise_auth True) s
                     in (Some True, s)))"

text \<open>\<open>mgos_wifi_dev_sta_setup\<close> from the \<open>strncpy\<close> of the SSID to its end, with
  the vendor record \<open>sta_cfg\<close> as the BSSID block leaves it.\<close>

definition sta_setup_apply ::
  "sdk \<Rightarrow> sys \<Rightarrow> mgos_config_wifi_sta \<Rightarrow> station_config \<Rightarrow> state \<Rightarrow>
     bool option \<times> state" where
  "sta_setup_apply k e cfg sta_cfg s =
     (let sta_cfg = sta_cfg\<lparr>sc_ssid := strncpy 32 (sta_ssid cfg)\<rparr>;
          static = (\<not> mgos_conf_str_empty (sta_ip cfg) \<and> \<not> mgos_conf_str_empty (sta_netmask cfg));
          info = \<lparr>ip = ipaddr_addr e (c_str (sta_ip cfg)),
                  netmask = ipaddr_addr e (c_str (sta_netmask cfg)),
                  gw = (if \<not> mgos_conf_str_empty (sta_gw cfg)
                        then ipaddr_addr e (c_str (sta_gw cfg)) else 0)\<rparr>;
          s = (if static
               then emit (Wifi_set_ip_info STATION_IF info) (emit Wifi_station_dhcpc_stop s)
               else s)
      in if static \<and> \<not> wifi_set_ip_info k STATION_IF info then (Some False, s)
         else
           let sta_cfg = (if mgos_conf_str_empty (sta_user cfg) \<and>
                             \<not> mgos_conf_str_empty (sta_pass cfg)
                          then sta_cfg\<lparr>sc_password := strncpy 64 (c_str (sta_pass cfg))\<rparr>
                          else sta_cfg);
               s = emit (Wifi_station_set_config_current sta_cfg) s
           in if \<not> wifi_station_set_config_current k sta_cfg then (Some False, s)
              else
                let s = emit (Wifi_station_set_auto_connect 0) s;
                    s = emit (Wifi_station_set_reconnect_policy False) s;
                    ent = (if \<not> mgos_conf_str_empty (sta_cert cfg) \<or>
                              \<not> mgos_conf_str_empty (sta_user cfg)
                           then (if MGOS_ESP8266_WIFI_ENABLE_WPAENT e
                                 then sta_setup_wpaent e cfg s else (Some True, s))
                           else (if MGOS_ESP8266_WIFI_ENABLE_WPAENT e
                                 then (Some True, emit (Wifi_station_set_wpa2_enterprise_auth False) s)
                                 else (Some True, s)))
                in if fst ent \<noteq> Some True then ent
                   else
                     let s = snd ent;
                         host_name = (case sta_dhcp_hostname cfg of
                                        Some h \<Rightarrow> Some h
                                      | None \<Rightarrow> mgos_sys_config_get_device_id e)
                     in case host_name of
                          None \<Rightarrow> (Some True, s)
                        | Some h \<Rightarrow>
                            (let s = emit (Wifi_station_set_hostname h) s
                             in if \<not> wifi_station_set_hostname k h then (Some False, s)
                                else (Some True, s)))"

definition sta_cfg_zero :: station_config where
  "sta_cfg_zero = \<lparr>sc_ssid = [], sc_password = [], sc_bssid_set = False,
                    sc_bssid = replicate 6 0\<rparr>"

definition mgos_wifi_dev_sta_setup ::
  "sdk \<Rightarrow> sys \<Rightarrow> mgos_config_wifi_sta \<Rightarrow> state \<Rightarrow> bool option \<times> state" where
  "mgos_wifi_dev_sta_setup k e cfg s =
     (if \<not> sta_enable cfg
      then (let removed = mgos_wifi_remove_mode k STATION_MODE s
            in (Some (fst removed), snd removed))
      else
        let s = emit Wifi_station_disconnect s;
            s = esp_wifi_set_rate_limits k (mgos_sys_config_get_wifi e) s;
            added = mgos_wifi_add_mode k STATION_MODE s
        in if \<not> fst added then (Some False, snd added)
           else
             let s = snd added in
             case sta_bssid cfg of
               None \<Rightarrow> sta_setup_apply k e cfg sta_cfg_zero s
             | Some b \<Rightarrow>
                 (let bssid = sscanf_bssid b
                  in if length bssid \<noteq> 6 then (Some False, s)
                     else sta_setup_apply k e cfg
                            (sta_cfg_zero\<lparr>sc_bssid := map ucast bssid, sc_bssid_set := True\<rparr>) s))"

subsection \<open>Access-point setup\<close>

definition ap_cfg_zero :: softap_config where
  "ap_cfg_zero = \<lparr>ac_ssid = [], ac_password = [], ac_channel = 0, ac_authmode = AUTH_OPEN,
                   ac_ssid_hidden = False, ac_max_connection = 0, ac_beacon_interval = 0\<rparr>"

definition mgos_wifi_dev_ap_setup ::
  "sdk \<Rightarrow> sys \<Rightarrow> mgos_config_wifi_ap \<Rightarrow> state \<Rightarrow> bool \<times> state" where
  "mgos_wifi_dev_ap_setup k e cfg s =
     (if \<not> ap_enable cfg then mgos_wifi_remove_mode k SOFTAP_MODE s
      else
        let s = esp_wifi_set_rate_limits k (mgos_sys_config_get_wifi e) s;
            added = mgos_wifi_add_mode k SOFTAP_MODE s
        in if \<not> fst added then (False, snd added)
           else
             let s = snd added;
                 ap_cfg = ap_cfg_zero\<lparr>ac_ssid := mgos_expand_mac_address_placeholders e
                                                     (strncpy 32 (ap_ssid cfg))\<rparr>;
                 ap_cfg = (if \<not> mgos_conf_str_empty (ap_pass cfg)
                           then ap_cfg\<lparr>ac_password := strncpy 64 (c_str (ap_pass cfg)),
                                       ac_authmode := AUTH_WPA2_PSK\<rparr>
                           else ap_cfg\<lparr>ac_authmode := AUTH_OPEN\<rparr>);
                 ap_cfg = ap_cfg\<lparr>ac_channel := ucast (ap_channel cfg),
                                  ac_ssid_hidden := (ap_hidden cfg \<noteq> 0),
                                  ac_max_connection := ucast (ap_max_connections cfg),
                                  ac_beacon_interval := 100\<rparr>;
                 s = emit (Wifi_softap_set_config_current ap_cfg) s
             in if \<not> wifi_softap_set_config_current k ap_cfg then (False, s)
                else
                  let s = emit Wifi_softap_dhcps_stop s;
                      info = \<lparr>ip = ipaddr_addr e (ap_ip cfg),
                              netmask = ipaddr_addr e (ap_netmask cfg),
                              gw = (case ap_gw cfg of
                                      Some g \<Rightarrow> ipaddr_addr e g | None \<Rightarrow> 0)\<rparr>;
                      s = emit (Wifi_set_ip_info SOFTAP_IF info) s
                  in if \<not> wifi_set_ip_info k SOFTAP_IF info then (False, s)
                     else
                       let dhcps = \<lparr>lease_enable = True,
                                    start_ip = ipaddr_addr e (ap_dhcp_start cfg),
                                    end_ip = ipaddr_addr e (ap_dhcp_end cfg)\<rparr>;
                           s = emit (Wifi_softap_set_dhcps_lease dhcps) s
                       in if \<not> wifi_softap_set_dhcps_lease k dhcps then (False, s)
                          else
                            let s = emit Wifi_softap_set_dhcps_offer_option s;
                                s = emit Wifi_softap_dhcps_start s
                            in if \<not> wifi_softap_dhcps_start k then (False, s)
                               else (True, s))"

subsection \<open>IP info query\<close>

text \<open>The third component of the result is the caller's record \<open>*ip_info\<close> after the
  call.\<close>

definition mgos_wifi_dev_get_ip_info ::
  "sdk \<Rightarrow> int \<Rightarrow> mgos_net_ip_info \<Rightarrow> state \<Rightarrow> bool \<times> mgos_net_ip_info \<times> state" where
  "mgos_wifi_dev_get_ip_info k if_instance ip_info s =
     (let iface = (if if_instance = 0 then STATION_IF else SOFTAP_IF);
          s = emit (Wifi_get_ip_info iface) s
      in case wifi_get_ip_info k iface of
           None \<Rightarrow> (False, ip_info, s)
         | Some info \<Rightarrow>
             if ip info = 0 then (False, ip_info, s)
             else (True,
                   ip_info\<lparr>net_ip := ip info, net_netmask := netmask info, net_gw := gw info\<rparr>,
                   s))"

subsection \<open>Scan completion\<close>

text \<open>The vendor's linked list of \<open>bss_info\<close> is a list; a null \<open>arg\<close> is the
  empty list. The first loop counts the nodes in an \<open>int\<close>; the nodes are distinct
  objects of a 32-bit address space, so the count stays below \<open>2^31\<close> and does not
  wrap.\<close>

fun count_bss :: "bss_info list \<Rightarrow> int \<Rightarrow> int" where
  "count_bss [] n = n"
| "count_bss (p # ps) n = count_bss ps (n + 1)"

definition scan_auth_mode :: "auth_mode \<Rightarrow> mgos_wifi_auth_mode" where
  "scan_auth_mode a =
     (case a of
        AUTH_OPEN \<Rightarrow> MGOS_WIFI_AUTH_MODE_OPEN
      | AUTH_WEP \<Rightarrow> MGOS_WIFI_AUTH_MODE_WEP
      | AUTH_WPA_PSK \<Rightarrow> MGOS_WIFI_AUTH_MODE_WPA_PSK
      | AUTH_WPA2_PSK \<Rightarrow> MGOS_WIFI_AUTH_MODE_WPA2_PSK
      | AUTH_WPA_WPA2_PSK \<Rightarrow> MGOS_WIFI_AUTH_MODE_WPA_WPA2_PSK
      | AUTH_MAX \<Rightarrow> MGOS_WIFI_AUTH_MODE_OPEN)"

text \<open>The second loop, one entry per node. \<open>AUTH_MAX\<close> leaves the entry's auth mode as
  \<open>calloc\<close> zeroed it.\<close>

fun fill_results :: "sys \<Rightarrow> bss_info list \<Rightarrow> mgos_wifi_scan_result list" where
  "fill_results e [] = []"
| "fill_results e (p # ps) =
     \<lparr>res_ssid = take (sizeof_res_ssid e - 1) (strncpy (sizeof_res_ssid e) (bss_ssid p)),
      res_bssid = bss_bssid p,
      res_auth_mode = scan_auth_mode (bss_authmode p),
      res_channel = bss_channel p,
      res_rssi = bss_rssi p\<rparr> # fill_results e ps"

definition wifi_scan_done :: "sys \<Rightarrow> bss_info list \<Rightarrow> STATUS \<Rightarrow> state \<Rightarrow> state" where
  "wifi_scan_done e info status s =
     (if status \<noteq> OK then emit (Mgos_wifi_dev_scan_cb (- 1) None) s
      else
        let n = count_bss info 0 in
        if n = 0 then emit (Mgos_wifi_dev_scan_cb 0 None) s
        else if \<not> calloc_ok e (nat n) then emit (Mgos_wifi_dev_scan_cb (- 1) None) s
        else emit (Mgos_wifi_dev_scan_cb n (Some (fill_results e info))) s)"

subsection \<open>Concrete environments\<close>

text \<open>A vendor SDK that accepts every call, one that refuses every call, an environment
  of the device OS, and the state after start-up (radio off, nothing called yet).\<close>

definition sdk_accepting :: sdk where
  "sdk_accepting =
     \<lparr>wifi_set_opmode_current = (\<lambda>_. True),
      wifi_set_user_rate_limit = (\<lambda>_ _ _ _. True),
      wifi_get_user_limit_rate_mask = 2,
      wifi_set_user_limit_rate_mask = (\<lambda>_. True),
      wifi_set_ip_info = (\<lambda>_ _. True),
      wifi_get_ip_info = (\<lambda>_. Some \<lparr>ip = 0x0104A8C0, netmask = 0x00FFFFFF, gw = 0x0104A8C0\<rparr>),
      wifi_station_set_config_current = (\<lambda>_. True),
      wifi_station_set_hostname = (\<lambda>_. True),
      wifi_softap_set_config_current = (\<lambda>_. True),
      wifi_softap_set_dhcps_lease = (\<lambda>_. True),
      wifi_softap_dhcps_start = True,
      RATE_11B_B11M = 0, RATE_11B_B1M = 3,
      RATE_11G_G54M = 0, RATE_11G_B1M = 10,
      RATE_11N_MCS7S = 0, RATE_11N_B1M = 11\<rparr>"

definition sdk_refusing :: sdk where
  "sdk_refusing =
     \<lparr>wifi_set_opmode_current = (\<lambda>_. False),
      wifi_set_user_rate_limit = (\<lambda>_ _ _ _. False),
      wifi_get_user_limit_rate_mask = 3,
      wifi_set_user_limit_rate_mask = (\<lambda>_. False),
      wifi_set_ip_info = (\<lambda>_ _. False),
      wifi_get_ip_info = (\<lambda>_. None),
      wifi_station_set_config_current = (\<lambda>_. False),
      wifi_station_set_hostname = (\<lambda>_. False),
      wifi_softap_set_config_current = (\<lambda>_. False),
      wifi_softap_set_dhcps_lease = (\<lambda>_. False),
      wifi_softap_dhcps_start = False,
      RATE_11B_B11M = 0, RATE_11B_B1M = 3,
      RATE_11G_G54M = 0, RATE_11G_B1M = 10,
      RATE_11N_MCS7S = 0, RATE_11N_B1M = 11\<rparr>"

definition sys_plain :: sys where
  "sys_plain =
     \<lparr>ipaddr_addr = (\<lambda>_. 0x0104A8C0),
      mgos_expand_mac_address_placeholders = (\<lambda>x. x),
      mgos_sys_config_get_wifi =
        \<lparr>tx_rate_limit_11b = - 1, tx_rate_limit_11g = - 1, tx_rate_limit_11n = - 1\<rparr>,
      mgos_sys_config_get_device_id = Some ''esp8266_A1B2C3'',
      cs_read_file = (\<lambda>_. None),
      calloc_ok = (\<lambda>_. True),
      sizeof_res_ssid = 33,
      MGOS_ESP8266_WIFI_ENABLE_WPAENT = False\<rparr>"

definition sta_cfg_home :: mgos_config_wifi_sta where
  "sta_cfg_home =
     \<lparr>sta_enable = True, sta_ssid = ''home'', sta_pass = Some ''secret123'', sta_user = None,
      sta_anon_identity = None, sta_cert = None, sta_key = None, sta_ca_cert = None,
      sta_ip = None, sta_netmask = None, sta_gw = None, sta_dhcp_hostname = None,
      sta_bssid = None\<rparr>"

definition ap_cfg_home :: mgos_config_wifi_ap where
  "ap_cfg_home =
     \<lparr>ap_enable = True, ap_ssid = ''Mongoose_??????'', ap_pass = Some ''Mongoose'',
      ap_hidden = 0, ap_channel = 6, ap_max_connections = 10, ap_ip = ''192.168.4.1'',
      ap_netmask = ''255.255.255.0'', ap_gw = Some ''192.168.4.1'',
      ap_dhcp_start = ''192.168.4.2'', ap_dhcp_end = ''192.168.4.100''\<rparr>"

definition state_off :: state where
  "state_off = \<lparr>s_cur_mode = NULL_MODE, s_ca_cert_pem = None, s_cert_pem = None,
                 s_key_pem = None, trace = []\<rparr>"

subsection \<open>The BSSID format of the spec\<close>

text \<open>The spec's words for a well-formed BSSID string, to compare with what
  \<open>sscanf_bssid\<close> accepts: six colon-separated two-digit hex groups.\<close>

fun hex_groups :: "nat \<Rightarrow> string \<Rightarrow> bool" where
  "hex_groups (Suc 0) [a, b] = (hex_val a \<noteq> None \<and> hex_val b \<noteq> None)"
| "hex_groups (Suc (Suc n)) (a # b # c # r) =
     (hex_val a \<noteq> None \<and> hex_val b \<noteq> None \<and> c = CHR '':'' \<and> hex_groups (Suc n) r)"
| "hex_groups _ _ = False"

definition spec_bssid_format :: "string \<Rightarrow> bool" where
  "spec_bssid_format s = hex_groups 6 s"

subsection \<open>Reading the trace\<close>

text \<open>Whether the vendor accepted a per-family limit call (every other call counts as
  accepted), and the mask a call of \<open>wifi_set_user_limit_rate_mask\<close> wrote.\<close>

fun limit_call_ok :: "sdk \<Rightarrow> effect \<Rightarrow> bool" where
  "limit_call_ok k (Wifi_set_user_rate_limit fam iface mx mn) =
     wifi_set_user_rate_limit k fam iface mx mn"
| "limit_call_ok k _ = True"

fun limit_call_family :: "effect \<Rightarrow> rc_limit option" where
  "limit_call_family (Wifi_set_user_rate_limit fam iface mx mn) = Some fam"
| "limit_call_family _ = None"

fun mask_written :: "effect \<Rightarrow> u8 option" where
  "mask_written (Wifi_set_user_limit_rate_mask m) = Some m"
| "mask_written _ = None"

section \<open>Properties\<close>

subsection \<open>Auxiliary facts\<close>

lemma trace_emit: "trace (emit e s) = trace s @ [e]"
  by (simp add: emit_def)

lemma s_cur_mode_emit: "s_cur_mode (emit e s) = s_cur_mode s"
  by (simp add: emit_def)

lemma calls_duringI: "trace s' = trace s @ xs \<Longrightarrow> calls_during s s' = xs"
  by (simp add: calls_during_def)

lemma calls_during_self: "calls_during s s = []"
  by (simp add: calls_during_def)

lemmas mode_defs = NULL_MODE_def STATION_MODE_def SOFTAP_MODE_def STATIONAP_MODE_def

lemma sdk_accepting_opmode: "wifi_set_opmode_current sdk_accepting m"
  by (simp add: sdk_accepting_def)

lemma sdk_refusing_opmode: "\<not> wifi_set_opmode_current sdk_refusing m"
  by (simp add: sdk_refusing_def)

lemma trace_set_mode:
  "trace (snd (mgos_wifi_set_mode k mode s)) =
     trace s @ (if wifi_set_opmode_current k mode \<and> mode = STATION_MODE
                then [Wifi_set_opmode_current mode, Wifi_set_sleep_type NONE_SLEEP_T]
                else [Wifi_set_opmode_current mode])"
  by (auto simp: mgos_wifi_set_mode_def Let_def trace_emit)

lemma fst_set_mode: "fst (mgos_wifi_set_mode k mode s) = wifi_set_opmode_current k mode"
  by (simp add: mgos_wifi_set_mode_def Let_def)

lemma s_cur_mode_set_mode:
  "s_cur_mode (snd (mgos_wifi_set_mode k mode s)) =
     (if wifi_set_opmode_current k mode then mode else s_cur_mode s)"
  by (simp add: mgos_wifi_set_mode_def Let_def s_cur_mode_emit)

subsection \<open>Mode manager\<close>

text \<open>
  C1, as stated, at a concrete input: with the radio off and a vendor that refuses the
  opmode call, adding access-point mode does not return success, and the stored mode stays
  off instead of becoming the union.
\<close>

theorem add_mode_refused_counterexample:
  "\<not> fst (mgos_wifi_add_mode sdk_refusing SOFTAP_MODE state_off) \<and>
   s_cur_mode (snd (mgos_wifi_add_mode sdk_refusing SOFTAP_MODE state_off)) = NULL_MODE \<and>
   NULL_MODE \<noteq> SOFTAP_MODE"
  by (simp add: mgos_wifi_add_mode_def fst_set_mode s_cur_mode_set_mode
        sdk_refusing_opmode state_off_def mode_defs)

text \<open>
  C1, amended: for every current mode in Off, AP, STA, AP+STA and every requested mode in AP,
  STA, AP+STA, \<open>add_mode\<close> is a no-op success when the requested mode is already
  active or the combined mode is active; it delegates to \<open>set_mode\<close> with the combined
  mode when the requested single mode is the complement of the current single mode, and
  with the requested mode otherwise. When the vendor accepts the opmode call for the union
  of the two modes, \<open>add_mode\<close> returns success and the stored mode is that union (the
  bitwise or of the two masks), so that adding one feature never drops the other. When the
  vendor refuses it, the stored mode is unchanged and only the no-op cases return success.
\<close>

theorem add_mode_union:
  assumes "s_cur_mode s \<in> {NULL_MODE, SOFTAP_MODE, STATION_MODE, STATIONAP_MODE}"
      and "mode \<in> {SOFTAP_MODE, STATION_MODE, STATIONAP_MODE}"
  shows "(s_cur_mode s = mode \<or> s_cur_mode s = STATIONAP_MODE \<longrightarrow>
            mgos_wifi_add_mode k mode s = (True, s)) \<and>
         (s_cur_mode s \<noteq> mode \<and> s_cur_mode s \<noteq> STATIONAP_MODE \<and>
          ((s_cur_mode s = SOFTAP_MODE \<and> mode = STATION_MODE) \<or>
           (s_cur_mode s = STATION_MODE \<and> mode = SOFTAP_MODE)) \<longrightarrow>
            mgos_wifi_add_mode k mode s = mgos_wifi_set_mode k STATIONAP_MODE s) \<and>
         (s_cur_mode s \<noteq> mode \<and> s_cur_mode s \<noteq> STATIONAP_MODE \<and>
          \<not> ((s_cur_mode s = SOFTAP_MODE \<and> mode = STATION_MODE) \<or>
             (s_cur_mode s = STATION_MODE \<and> mode = SOFTAP_MODE)) \<longrightarrow>
            mgos_wifi_add_mode k mode s = mgos_wifi_set_mode k mode s) \<and>
         (wifi_set_opmode_current k (s_cur_mode s OR mode) \<longrightarrow>
            fst (mgos_wifi_add_mode k mode s) = True \<and>
            s_cur_mode (snd (mgos_wifi_add_mode k mode s)) = s_cur_mode s OR mode) \<and>
         (\<not> wifi_set_opmode_current k (s_cur_mode s OR mode) \<longrightarrow>
            fst (mgos_wifi_add_mode k mode s) =
              (s_cur_mode s = mode \<or> s_cur_mode s = STATIONAP_MODE) \<and>
            s_cur_mode (snd (mgos_wifi_add_mode k mode s)) = s_cur_mode s)"
  using assms
  by (auto simp: mgos_wifi_add_mode_def fst_set_mode s_cur_mode_set_mode mode_defs)

theorem add_mode_union_witness:
  "s_cur_mode (state_off\<lparr>s_cur_mode := SOFTAP_MODE\<rparr>) \<in>
     {NULL_MODE, SOFTAP_MODE, STATION_MODE, STATIONAP_MODE} \<and>
   STATION_MODE \<in> {SOFTAP_MODE, STATION_MODE, STATIONAP_MODE} \<and>
   wifi_set_opmode_current sdk_accepting (SOFTAP_MODE OR STATION_MODE) \<and>
   mgos_wifi_add_mode sdk_accepting STATION_MODE (state_off\<lparr>s_cur_mode := SOFTAP_MODE\<rparr>) =
     mgos_wifi_set_mode sdk_accepting STATIONAP_MODE (state_off\<lparr>s_cur_mode := SOFTAP_MODE\<rparr>) \<and>
   fst (mgos_wifi_add_mode sdk_accepting STATION_MODE (state_off\<lparr>s_cur_mode := SOFTAP_MODE\<rparr>)) \<and>
   s_cur_mode (snd (mgos_wifi_add_mode sdk_accepting STATION_MODE
                      (state_off\<lparr>s_cur_mode := SOFTAP_MODE\<rparr>))) = STATIONAP_MODE"
proof -
  have h1: "s_cur_mode (state_off\<lparr>s_cur_mode := SOFTAP_MODE\<rparr>) \<in>
     {NULL_MODE, SOFTAP_MODE, STATION_MODE, STATIONAP_MODE}" by simp
  have h2: "STATION_MODE \<in> {SOFTAP_MODE, STATION_MODE, STATIONAP_MODE}" by simp
  show ?thesis
    using add_mode_union [OF h1 h2, of sdk_accepting]
    by (auto simp: sdk_accepting_opmode mode_defs)
qed

text \<open>
  C2: for every current mode in Off, AP, STA, AP+STA and every requested mode in AP, STA,
  \<open>remove_mode\<close> is a no-op success when the requested mode is absent from or disjoint
  with the current mode (current mode Off included); from the combined mode it downgrades,
  through \<open>set_mode\<close>, to the single mode that is not removed; when the requested mode
  is the current single mode it switches to Off, and so does a request to remove the
  combined mode itself (a no-op when the radio is off already). No other transition is
  reachable: afterwards the stored mode is the old one or the old one without the removed
  bits, and it is the latter whenever the vendor accepts that opmode.
\<close>

theorem remove_mode_table:
  assumes "s_cur_mode s \<in> {NULL_MODE, SOFTAP_MODE, STATION_MODE, STATIONAP_MODE}"
      and "mode \<in> {SOFTAP_MODE, STATION_MODE}"
  shows "(s_cur_mode s = NULL_MODE \<or>
          (s_cur_mode s = SOFTAP_MODE \<and> mode = STATION_MODE) \<or>
          (s_cur_mode s = STATION_MODE \<and> mode = SOFTAP_MODE) \<longrightarrow>
            mgos_wifi_remove_mode k mode s = (True, s)) \<and>
         (s_cur_mode s = STATIONAP_MODE \<and> mode = STATION_MODE \<longrightarrow>
            mgos_wifi_remove_mode k mode s = mgos_wifi_set_mode k SOFTAP_MODE s) \<and>
         (s_cur_mode s = STATIONAP_MODE \<and> mode = SOFTAP_MODE \<longrightarrow>
            mgos_wifi_remove_mode k mode s = mgos_wifi_set_mode k STATION_MODE s) \<and>
         (s_cur_mode s = mode \<longrightarrow>
            mgos_wifi_remove_mode k mode s = mgos_wifi_set_mode k NULL_MODE s) \<and>
         mgos_wifi_remove_mode k STATIONAP_MODE s =
           (if s_cur_mode s = NULL_MODE then (True, s) else mgos_wifi_set_mode k NULL_MODE s) \<and>
         s_cur_mode (snd (mgos_wifi_remove_mode k mode s)) \<in>
           {s_cur_mode s, s_cur_mode s AND NOT mode} \<and>
         s_cur_mode (snd (mgos_wifi_remove_mode k STATIONAP_MODE s)) \<in> {s_cur_mode s, NULL_MODE} \<and>
         (wifi_set_opmode_current k (s_cur_mode s AND NOT mode) \<longrightarrow>
            fst (mgos_wifi_remove_mode k mode s) = True \<and>
            s_cur_mode (snd (mgos_wifi_remove_mode k mode s)) = s_cur_mode s AND NOT mode)"
  using assms
  by (auto simp: mgos_wifi_remove_mode_def fst_set_mode s_cur_mode_set_mode mode_defs)

theorem remove_mode_table_witness:
  "s_cur_mode (state_off\<lparr>s_cur_mode := STATIONAP_MODE\<rparr>) \<in>
     {NULL_MODE, SOFTAP_MODE, STATION_MODE, STATIONAP_MODE} \<and>
   STATION_MODE \<in> {SOFTAP_MODE, STATION_MODE} \<and>
   mgos_wifi_remove_mode sdk_accepting STATION_MODE (state_off\<lparr>s_cur_mode := STATIONAP_MODE\<rparr>) =
     mgos_wifi_set_mode sdk_accepting SOFTAP_MODE (state_off\<lparr>s_cur_mode := STATIONAP_MODE\<rparr>) \<and>
   s_cur_mode (snd (mgos_wifi_remove_mode sdk_accepting STATION_MODE
                      (state_off\<lparr>s_cur_mode := STATIONAP_MODE\<rparr>))) = SOFTAP_MODE \<and>
   mgos_wifi_remove_mode sdk_accepting STATION_MODE (state_off\<lparr>s_cur_mode := SOFTAP_MODE\<rparr>) =
     (True, state_off\<lparr>s_cur_mode := SOFTAP_MODE\<rparr>)"
proof -
  have h1: "s_cur_mode (state_off\<lparr>s_cur_mode := STATIONAP_MODE\<rparr>) \<in>
     {NULL_MODE, SOFTAP_MODE, STATION_MODE, STATIONAP_MODE}" by simp
  have h1': "s_cur_mode (state_off\<lparr>s_cur_mode := SOFTAP_MODE\<rparr>) \<in>
     {NULL_MODE, SOFTAP_MODE, STATION_MODE, STATIONAP_MODE}" by simp
  have h2: "STATION_MODE \<in> {SOFTAP_MODE, STATION_MODE}" by simp
  show ?thesis
    using remove_mode_table [OF h1 h2, of sdk_accepting]
          remove_mode_table [OF h1' h2, of sdk_accepting]
    by (auto simp: sdk_accepting_opmode mode_defs)
qed

text \<open>
  C3: for every requested mode, \<open>set_mode\<close> first makes the vendor opmode call. If the
  vendor refuses, \<open>set_mode\<close> returns failure, the stored mode is what it was, and
  nothing else is called; if the vendor accepts, \<open>set_mode\<close> returns success and the
  stored mode is the requested mode.
\<close>

theorem set_mode_commits_after_vendor:
  "(\<not> wifi_set_opmode_current k mode \<longrightarrow>
      fst (mgos_wifi_set_mode k mode s) = False \<and>
      s_cur_mode (snd (mgos_wifi_set_mode k mode s)) = s_cur_mode s \<and>
      calls_during s (snd (mgos_wifi_set_mode k mode s)) = [Wifi_set_opmode_current mode]) \<and>
   (wifi_set_opmode_current k mode \<longrightarrow>
      fst (mgos_wifi_set_mode k mode s) = True \<and>
      s_cur_mode (snd (mgos_wifi_set_mode k mode s)) = mode \<and>
      hd (calls_during s (snd (mgos_wifi_set_mode k mode s))) = Wifi_set_opmode_current mode)"
  by (simp add: calls_duringI[OF trace_set_mode] fst_set_mode s_cur_mode_set_mode)

theorem set_mode_commits_after_vendor_witness:
  "\<not> wifi_set_opmode_current sdk_refusing SOFTAP_MODE \<and>
   fst (mgos_wifi_set_mode sdk_refusing SOFTAP_MODE state_off) = False \<and>
   s_cur_mode (snd (mgos_wifi_set_mode sdk_refusing SOFTAP_MODE state_off)) = NULL_MODE \<and>
   wifi_set_opmode_current sdk_accepting SOFTAP_MODE \<and>
   fst (mgos_wifi_set_mode sdk_accepting SOFTAP_MODE state_off) = True \<and>
   s_cur_mode (snd (mgos_wifi_set_mode sdk_accepting SOFTAP_MODE state_off)) = SOFTAP_MODE"
  using set_mode_commits_after_vendor [of sdk_refusing SOFTAP_MODE state_off]
        set_mode_commits_after_vendor [of sdk_accepting SOFTAP_MODE state_off]
  by (simp add: sdk_refusing_opmode sdk_accepting_opmode state_off_def)

text \<open>
  C8: \<open>set_mode\<close> with station mode, once the vendor has accepted the opmode, calls the
  vendor sleep-type function with the no-sleep value, right after the opmode call;
  \<open>set_mode\<close> with access-point-only mode never calls the sleep-type function, whatever
  the vendor answers.
\<close>

theorem set_mode_sleep_type:
  "(wifi_set_opmode_current k STATION_MODE \<longrightarrow>
      calls_during s (snd (mgos_wifi_set_mode k STATION_MODE s)) =
        [Wifi_set_opmode_current STATION_MODE, Wifi_set_sleep_type NONE_SLEEP_T]) \<and>
   (\<forall>t. Wifi_set_sleep_type t \<notin> set (calls_during s (snd (mgos_wifi_set_mode k SOFTAP_MODE s))))"
  by (simp add: calls_duringI[OF trace_set_mode] mode_defs)

theorem set_mode_sleep_type_witness:
  "wifi_set_opmode_current sdk_accepting STATION_MODE \<and>
   calls_during state_off (snd (mgos_wifi_set_mode sdk_accepting STATION_MODE state_off)) =
     [Wifi_set_opmode_current STATION_MODE, Wifi_set_sleep_type NONE_SLEEP_T]"
  using set_mode_sleep_type [of sdk_accepting state_off]
  by (simp add: sdk_accepting_opmode)

subsection \<open>Auxiliary facts on the rate limiter and the setup functions\<close>

lemma s_cur_mode_rate_limits: "s_cur_mode (esp_wifi_set_rate_limits k cfg s) = s_cur_mode s"
  by (simp add: esp_wifi_set_rate_limits_def Let_def s_cur_mode_emit)

lemma trace_rate_limits:
  "\<exists>a b c d e f m.
     trace (esp_wifi_set_rate_limits k cfg s) =
       trace s @ [Wifi_set_user_rate_limit RC_LIMIT_11B STATION_IF a b,
                  Wifi_set_user_rate_limit RC_LIMIT_11G STATION_IF c d,
                  Wifi_set_user_rate_limit RC_LIMIT_11N STATION_IF e f,
                  Wifi_get_user_limit_rate_mask,
                  Wifi_set_user_limit_rate_mask m]"
  by (simp add: esp_wifi_set_rate_limits_def Let_def trace_emit)

lemma trace_add_mode:
  "\<exists>xs. trace (snd (mgos_wifi_add_mode k m s)) = trace s @ xs \<and>
        (\<forall>x \<in> set xs. (\<exists>m'. x = Wifi_set_opmode_current m') \<or>
                        x = Wifi_set_sleep_type NONE_SLEEP_T)"
  by (auto simp: mgos_wifi_add_mode_def trace_set_mode)

lemma mask_sta_set: "(m OR LIMIT_RATE_MASK_STA) AND LIMIT_RATE_MASK_STA = LIMIT_RATE_MASK_STA"
  by (simp add: word_ao_absorbs)

lemma mask_sta_clear: "(m AND NOT LIMIT_RATE_MASK_STA) AND LIMIT_RATE_MASK_STA = 0"
  by (simp add: and.assoc)

lemma mask_sta_nonzero: "LIMIT_RATE_MASK_STA \<noteq> 0"
  by (simp add: LIMIT_RATE_MASK_STA_def)

lemma mask_sta_others: "(m OR LIMIT_RATE_MASK_STA) AND NOT LIMIT_RATE_MASK_STA = m AND NOT LIMIT_RATE_MASK_STA"
  by (simp add: bit.conj_disj_distrib2)

lemma rate_limits_mask:
  "List.map_filter mask_written (calls_during s (esp_wifi_set_rate_limits k cfg s)) =
     [if (tx_rate_limit_11b cfg \<noteq> - 1 \<or> tx_rate_limit_11g cfg \<noteq> - 1 \<or>
          tx_rate_limit_11n cfg \<noteq> - 1) \<and>
         list_all (limit_call_ok k) (calls_during s (esp_wifi_set_rate_limits k cfg s))
      then wifi_get_user_limit_rate_mask k OR LIMIT_RATE_MASK_STA
      else wifi_get_user_limit_rate_mask k AND NOT LIMIT_RATE_MASK_STA] \<and>
   List.map_filter limit_call_family (calls_during s (esp_wifi_set_rate_limits k cfg s)) =
     [RC_LIMIT_11B, RC_LIMIT_11G, RC_LIMIT_11N]"
  by (simp add: esp_wifi_set_rate_limits_def Let_def trace_emit calls_during_def
        List.map_filter_simps)

lemma wpaent_null_user: "sta_user cfg = None \<Longrightarrow> sta_setup_wpaent e cfg s = (None, s)"
  by (simp add: sta_setup_wpaent_def)

lemma fst_wpaent_state: "fst (sta_setup_wpaent e cfg s) = fst (sta_setup_wpaent e cfg s')"
  by (simp add: sta_setup_wpaent_def Let_def split: option.splits prod.splits)

lemma fst_sta_setup_apply:
  "fst (sta_setup_apply (k\<lparr>wifi_set_user_rate_limit := f\<rparr>) e cfg c s) =
   fst (sta_setup_apply k e cfg c s')"
proof -
  define b where "b = fst (sta_setup_wpaent e cfg state_off)"
  have w: "\<And>t. fst (sta_setup_wpaent e cfg t) = b"
    unfolding b_def by (rule fst_wpaent_state)
  show ?thesis
    by (simp add: sta_setup_apply_def Let_def w split: option.splits)
qed

lemma fst_add_mode_cong:
  "s_cur_mode s = s_cur_mode s' \<Longrightarrow>
   fst (mgos_wifi_add_mode (k\<lparr>wifi_set_user_rate_limit := f\<rparr>) m s) =
     fst (mgos_wifi_add_mode k m s') \<and>
   s_cur_mode (snd (mgos_wifi_add_mode (k\<lparr>wifi_set_user_rate_limit := f\<rparr>) m s)) =
     s_cur_mode (snd (mgos_wifi_add_mode k m s'))"
  by (simp add: mgos_wifi_add_mode_def fst_set_mode s_cur_mode_set_mode)

lemma fst_remove_mode_cong:
  "s_cur_mode s = s_cur_mode s' \<Longrightarrow>
   fst (mgos_wifi_remove_mode (k\<lparr>wifi_set_user_rate_limit := f\<rparr>) m s) =
     fst (mgos_wifi_remove_mode k m s')"
  by (simp add: mgos_wifi_remove_mode_def fst_set_mode)

lemma sta_setup_ignores_limit_results:
  "fst (mgos_wifi_dev_sta_setup (k\<lparr>wifi_set_user_rate_limit := f\<rparr>) e cfg s) =
   fst (mgos_wifi_dev_sta_setup k e cfg s)"
proof (cases "sta_enable cfg")
  case False
  then show ?thesis
    by (simp add: mgos_wifi_dev_sta_setup_def Let_def fst_remove_mode_cong)
next
  case True
  let ?k' = "k\<lparr>wifi_set_user_rate_limit := f\<rparr>"
  let ?s1 = "esp_wifi_set_rate_limits ?k' (mgos_sys_config_get_wifi e) (emit Wifi_station_disconnect s)"
  let ?s2 = "esp_wifi_set_rate_limits k (mgos_sys_config_get_wifi e) (emit Wifi_station_disconnect s)"
  have m: "s_cur_mode ?s1 = s_cur_mode ?s2"
    by (simp add: s_cur_mode_rate_limits)
  note a = fst_add_mode_cong [OF m, where k = k and f = f and m = STATION_MODE]
  show ?thesis
    using True a
    by (simp add: mgos_wifi_dev_sta_setup_def Let_def
          fst_sta_setup_apply [where s' = "snd (mgos_wifi_add_mode k STATION_MODE ?s2)"]
          split: option.splits)
qed

lemma ap_setup_ignores_limit_results:
  "fst (mgos_wifi_dev_ap_setup (k\<lparr>wifi_set_user_rate_limit := f\<rparr>) e cfg s) =
   fst (mgos_wifi_dev_ap_setup k e cfg s)"
proof (cases "ap_enable cfg")
  case False
  then show ?thesis
    by (simp add: mgos_wifi_dev_ap_setup_def fst_remove_mode_cong)
next
  case True
  let ?k' = "k\<lparr>wifi_set_user_rate_limit := f\<rparr>"
  let ?s1 = "esp_wifi_set_rate_limits ?k' (mgos_sys_config_get_wifi e) s"
  let ?s2 = "esp_wifi_set_rate_limits k (mgos_sys_config_get_wifi e) s"
  have m: "s_cur_mode ?s1 = s_cur_mode ?s2"
    by (simp add: s_cur_mode_rate_limits)
  note a = fst_add_mode_cong [OF m, where k = k and f = f and m = SOFTAP_MODE]
  show ?thesis
    using True a
    by (simp add: mgos_wifi_dev_ap_setup_def Let_def)
qed

text \<open>Every string in the spec's BSSID format is converted in full by the scan, so a
  string the scan rejects is malformed in the spec's sense as well.\<close>

lemma hex_val_plain:
  "hex_val c = Some d \<Longrightarrow>
     \<not> isspace c \<and> c \<noteq> CHR ''+'' \<and> c \<noteq> CHR ''-'' \<and> c \<noteq> CHR ''x'' \<and> c \<noteq> CHR ''X'' \<and>
     c \<noteq> CHR 0x00"
  by (auto simp: hex_val_def isspace_def Let_def split: if_splits)

lemma scan_02x_two_digits:
  assumes "hex_val a = Some d1" and "hex_val b = Some d2"
  shows "scan_02x (a # b # r) = Some (of_nat (16 * d1 + d2), r)"
  using assms hex_val_plain [OF assms(1)] hex_val_plain [OF assms(2)]
  by (simp add: scan_02x_def)

lemma hex_groups_scanned: "hex_groups n s \<Longrightarrow> length (scan_fields n s) = n"
proof (induction n s rule: hex_groups.induct)
  case (1 a b)
  then show ?case by (auto simp: scan_02x_two_digits)
next
  case (2 n a b c r)
  then show ?case by (auto simp: scan_02x_two_digits)
qed simp_all

lemma hex_groups_no_nul: "hex_groups n s \<Longrightarrow> takeWhile (\<lambda>c. c \<noteq> CHR 0x00) s = s"
proof (induction n s rule: hex_groups.induct)
  case (1 a b)
  then show ?case by (auto dest: hex_val_plain)
next
  case (2 n a b c r)
  then show ?case by (auto dest: hex_val_plain)
qed simp_all

lemma spec_format_is_scanned: "spec_bssid_format b \<Longrightarrow> length (sscanf_bssid b) = 6"
  by (simp add: spec_bssid_format_def sscanf_bssid_def hex_groups_scanned hex_groups_no_nul)

text \<open>Six fields need five colons: a string with a wrong field count is rejected.\<close>

lemma scan_02x_suffix: "scan_02x s = Some (v, rest) \<Longrightarrow> \<exists>pre. s = pre @ rest"
proof -
  assume a: "scan_02x s = Some (v, rest)"
  obtain ws where ws: "s = ws @ dropWhile isspace s"
    using takeWhile_dropWhile_id [of isspace s] by metis
  from a have "\<exists>p. dropWhile isspace s = p @ rest"
    unfolding scan_02x_def
    by (cases "dropWhile isspace s")
       (auto split: if_splits option.splits list.splits
             intro: exI [of _ "[x]" for x] exI [of _ "[x, y]" for x y])
  then obtain p where "dropWhile isspace s = p @ rest" ..
  with ws have "s = (ws @ p) @ rest" by simp
  then show ?thesis ..
qed

lemma scan_fields_colons:
  "length (scan_fields n s) = n \<Longrightarrow> n - 1 \<le> length (filter (\<lambda>c. c = CHR '':'') s)"
proof (induction n arbitrary: s)
  case 0
  then show ?case by simp
next
  case (Suc n)
  show ?case
  proof (cases "n = 0")
    case True
    then show ?thesis by simp
  next
    case False
    from Suc.prems False obtain v rest' where
      sc: "scan_02x s = Some (v, CHR '':'' # rest')" and len: "length (scan_fields n rest') = n"
      by (auto split: option.splits list.splits if_splits)
    from scan_02x_suffix [OF sc] obtain pre where s: "s = pre @ CHR '':'' # rest'" ..
    from Suc.IH [OF len] have "n - 1 \<le> length (filter (\<lambda>c. c = CHR '':'') rest')" .
    with s False show ?thesis by simp
  qed
qed

lemma few_colons_not_scanned:
  assumes "length (filter (\<lambda>c. c = CHR '':'') b) < 5"
  shows "length (sscanf_bssid b) \<noteq> 6"
proof
  assume "length (sscanf_bssid b) = 6"
  then have "5 \<le> length (filter (\<lambda>c. c = CHR '':'') (takeWhile (\<lambda>c. c \<noteq> CHR 0x00) b))"
    using scan_fields_colons [of 6 "takeWhile (\<lambda>c. c \<noteq> CHR 0x00) b"]
    by (simp add: sscanf_bssid_def)
  moreover have "length (filter (\<lambda>c. c = CHR '':'') (takeWhile (\<lambda>c. c \<noteq> CHR 0x00) b))
      \<le> length (filter (\<lambda>c. c = CHR '':'') b)"
    using takeWhile_dropWhile_id [of "\<lambda>c. c \<noteq> CHR 0x00" b]
    by (metis filter_append le_add1 length_append)
  ultimately show False using assms by simp
qed

lemma count_bss_length: "count_bss ps n = n + int (length ps)"
  by (induction ps arbitrary: n) auto

lemma length_fill_results: "length (fill_results e ps) = length ps"
  by (induction ps) auto

subsection \<open>Event translator\<close>

text \<open>
  C4: for a vendor authentication-mode-change event whose prior auth mode is not open and
  whose new auth mode is open, event translation calls the vendor station disconnect, and
  that is all it does; for every other authentication-mode-change event it calls nothing.
  In neither case is a portable event record forwarded.
\<close>

theorem authmode_change_event:
  "(old_mode \<noteq> AUTH_OPEN \<and> new_mode = AUTH_OPEN \<longrightarrow>
      calls_during s (wifi_changed_cb (EVENT_STAMODE_AUTHMODE_CHANGE old_mode new_mode) s) =
        [Wifi_station_disconnect]) \<and>
   (\<not> (old_mode \<noteq> AUTH_OPEN \<and> new_mode = AUTH_OPEN) \<longrightarrow>
      calls_during s (wifi_changed_cb (EVENT_STAMODE_AUTHMODE_CHANGE old_mode new_mode) s) = []) \<and>
   (\<forall>dei. Mgos_wifi_dev_event_cb dei \<notin>
      set (calls_during s (wifi_changed_cb (EVENT_STAMODE_AUTHMODE_CHANGE old_mode new_mode) s)))"
  by (simp add: wifi_changed_cb_def calls_during_def trace_emit)

theorem authmode_change_event_witness:
  "AUTH_WPA2_PSK \<noteq> AUTH_OPEN \<and>
   calls_during state_off
     (wifi_changed_cb (EVENT_STAMODE_AUTHMODE_CHANGE AUTH_WPA2_PSK AUTH_OPEN) state_off) =
     [Wifi_station_disconnect] \<and>
   calls_during state_off
     (wifi_changed_cb (EVENT_STAMODE_AUTHMODE_CHANGE AUTH_OPEN AUTH_WPA2_PSK) state_off) = []"
  using authmode_change_event [of AUTH_WPA2_PSK AUTH_OPEN state_off]
        authmode_change_event [of AUTH_OPEN AUTH_WPA2_PSK state_off]
  by simp

subsection \<open>Station setup\<close>

text \<open>
  C5, as stated, at a concrete input: the BSSID string \<open>1:2:3:4:5:6\<close> is not made of
  six two-digit hex groups, yet \<open>sscanf\<close> converts six fields from it; with a vendor
  that accepts every call the station setup succeeds and the vendor config-apply call is
  made, with that BSSID pinned.
\<close>

theorem sta_setup_loose_bssid_counterexample:
  "sta_enable (sta_cfg_home\<lparr>sta_bssid := Some ''1:2:3:4:5:6''\<rparr>) \<and>
   \<not> spec_bssid_format ''1:2:3:4:5:6'' \<and>
   fst (mgos_wifi_dev_sta_setup sdk_accepting sys_plain
          (sta_cfg_home\<lparr>sta_bssid := Some ''1:2:3:4:5:6''\<rparr>) state_off) = Some True \<and>
   Wifi_station_set_config_current
     \<lparr>sc_ssid = ''home'', sc_password = ''secret123'', sc_bssid_set = True,
      sc_bssid = [1, 2, 3, 4, 5, 6]\<rparr>
     \<in> set (calls_during state_off
              (snd (mgos_wifi_dev_sta_setup sdk_accepting sys_plain
                      (sta_cfg_home\<lparr>sta_bssid := Some ''1:2:3:4:5:6''\<rparr>) state_off)))"
  by code_simp

text \<open>
  C5, amended: for every enabled station config whose BSSID string is non-null and from
  which \<open>sscanf\<close> with the format \<open>%02x:%02x:%02x:%02x:%02x:%02x\<close> converts fewer
  than six fields, station setup returns failure and the vendor station config-apply call
  is never invoked in that setup call, whatever the vendor answers to the calls made
  before. The field count is what decides: a field is optional white space followed by a
  sign and a hex digit, by one or two hex digits, or by the bare prefix \<open>0x\<close>, and
  what follows the sixth field is ignored. Every string with fewer than five colons is
  rejected, and every string of six two-digit groups is accepted (the two lemmas above).
\<close>

theorem sta_setup_bad_bssid:
  assumes "sta_enable cfg" and "sta_bssid cfg = Some b" and "length (sscanf_bssid b) \<noteq> 6"
  shows "fst (mgos_wifi_dev_sta_setup k e cfg s) = Some False \<and>
         (\<forall>c. Wifi_station_set_config_current c \<notin>
                set (calls_during s (snd (mgos_wifi_dev_sta_setup k e cfg s))))"
proof -
  let ?s0 = "emit Wifi_station_disconnect s"
  let ?s1 = "esp_wifi_set_rate_limits k (mgos_sys_config_get_wifi e) ?s0"
  let ?s2 = "snd (mgos_wifi_add_mode k STATION_MODE ?s1)"
  obtain rl where rl: "trace ?s1 = trace ?s0 @ rl"
    and rl_cfg: "\<forall>c. Wifi_station_set_config_current c \<notin> set rl"
    using trace_rate_limits [of k "mgos_sys_config_get_wifi e" ?s0] by auto
  obtain xs where xs: "trace ?s2 = trace ?s1 @ xs"
    and xs_cfg: "\<forall>c. Wifi_station_set_config_current c \<notin> set xs"
    using trace_add_mode [of k STATION_MODE ?s1] by auto
  have r: "mgos_wifi_dev_sta_setup k e cfg s = (Some False, ?s2)"
    using assms by (simp add: mgos_wifi_dev_sta_setup_def Let_def)
  show ?thesis
    using rl_cfg xs_cfg
    by (simp add: r calls_during_def xs rl trace_emit)
qed

theorem sta_setup_bad_bssid_witness:
  "sta_enable (sta_cfg_home\<lparr>sta_bssid := Some ''aa:bb:cc:dd:ee''\<rparr>) \<and>
   sta_bssid (sta_cfg_home\<lparr>sta_bssid := Some ''aa:bb:cc:dd:ee''\<rparr>) = Some ''aa:bb:cc:dd:ee'' \<and>
   length (sscanf_bssid ''aa:bb:cc:dd:ee'') \<noteq> 6 \<and>
   fst (mgos_wifi_dev_sta_setup sdk_accepting sys_plain
          (sta_cfg_home\<lparr>sta_bssid := Some ''aa:bb:cc:dd:ee''\<rparr>) state_off) = Some False \<and>
   (\<forall>c. Wifi_station_set_config_current c \<notin>
          set (calls_during state_off
                 (snd (mgos_wifi_dev_sta_setup sdk_accepting sys_plain
                         (sta_cfg_home\<lparr>sta_bssid := Some ''aa:bb:cc:dd:ee''\<rparr>) state_off))))"
proof -
  have h1: "sta_enable (sta_cfg_home\<lparr>sta_bssid := Some ''aa:bb:cc:dd:ee''\<rparr>)"
    by (simp add: sta_cfg_home_def)
  have h2: "sta_bssid (sta_cfg_home\<lparr>sta_bssid := Some ''aa:bb:cc:dd:ee''\<rparr>) =
      Some ''aa:bb:cc:dd:ee''"
    by simp
  have h3: "length (sscanf_bssid ''aa:bb:cc:dd:ee'') \<noteq> 6"
    by code_simp
  show ?thesis
    using sta_setup_bad_bssid [OF h1 h2 h3, of sdk_accepting sys_plain state_off] h1 h2 h3
    by blast
qed

subsection \<open>Access-point setup\<close>

text \<open>
  C6: for every enabled access-point config, every vendor AP config that the setup call
  writes has auth mode open exactly when the password is empty (null or the empty string)
  and WPA2-PSK exactly when it is not, so no other auth mode is ever selected; and the
  config is written whenever the vendor accepts the opmode call.
\<close>

theorem ap_setup_authmode:
  assumes "ap_enable cfg"
  shows "(\<forall>c. Wifi_softap_set_config_current c \<in>
               set (calls_during s (snd (mgos_wifi_dev_ap_setup k e cfg s))) \<longrightarrow>
             (ac_authmode c = AUTH_OPEN \<longleftrightarrow> mgos_conf_str_empty (ap_pass cfg)) \<and>
             (ac_authmode c = AUTH_WPA2_PSK \<longleftrightarrow> \<not> mgos_conf_str_empty (ap_pass cfg))) \<and>
         ((\<forall>m. wifi_set_opmode_current k m) \<longrightarrow>
            (\<exists>c. Wifi_softap_set_config_current c \<in>
                   set (calls_during s (snd (mgos_wifi_dev_ap_setup k e cfg s)))))"
proof -
  let ?s1 = "esp_wifi_set_rate_limits k (mgos_sys_config_get_wifi e) s"
  let ?s2 = "snd (mgos_wifi_add_mode k SOFTAP_MODE ?s1)"
  obtain rl where rl: "trace ?s1 = trace s @ rl"
    and rl_cfg: "\<forall>c. Wifi_softap_set_config_current c \<notin> set rl"
    using trace_rate_limits [of k "mgos_sys_config_get_wifi e" s] by auto
  obtain xs where xs: "trace ?s2 = trace ?s1 @ xs"
    and xs_cfg: "\<forall>c. Wifi_softap_set_config_current c \<notin> set xs"
    using trace_add_mode [of k SOFTAP_MODE ?s1] by auto
  have ok: "(\<forall>m. wifi_set_opmode_current k m) \<Longrightarrow> fst (mgos_wifi_add_mode k SOFTAP_MODE ?s1)"
    by (simp add: mgos_wifi_add_mode_def fst_set_mode)
  show ?thesis
    using assms rl_cfg xs_cfg ok
    by (auto simp: mgos_wifi_dev_ap_setup_def Let_def calls_during_def trace_emit rl xs)
qed

theorem ap_setup_authmode_witness:
  "ap_enable ap_cfg_home \<and> \<not> mgos_conf_str_empty (ap_pass ap_cfg_home) \<and>
   (\<exists>c. Wifi_softap_set_config_current c \<in>
          set (calls_during state_off
                 (snd (mgos_wifi_dev_ap_setup sdk_accepting sys_plain ap_cfg_home state_off))) \<and>
        ac_authmode c = AUTH_WPA2_PSK) \<and>
   ap_enable (ap_cfg_home\<lparr>ap_pass := None\<rparr>) \<and>
   mgos_conf_str_empty (ap_pass (ap_cfg_home\<lparr>ap_pass := None\<rparr>)) \<and>
   (\<exists>c. Wifi_softap_set_config_current c \<in>
          set (calls_during state_off
                 (snd (mgos_wifi_dev_ap_setup sdk_accepting sys_plain
                         (ap_cfg_home\<lparr>ap_pass := None\<rparr>) state_off))) \<and>
        ac_authmode c = AUTH_OPEN)"
proof -
  have h1: "ap_enable ap_cfg_home"
    by (simp add: ap_cfg_home_def)
  have h2: "ap_enable (ap_cfg_home\<lparr>ap_pass := None\<rparr>)"
    by (simp add: ap_cfg_home_def)
  have p1: "\<not> mgos_conf_str_empty (ap_pass ap_cfg_home)"
    by (simp add: ap_cfg_home_def mgos_conf_str_empty_def)
  have p2: "mgos_conf_str_empty (ap_pass (ap_cfg_home\<lparr>ap_pass := None\<rparr>))"
    by (simp add: mgos_conf_str_empty_def)
  have v: "\<forall>m. wifi_set_opmode_current sdk_accepting m"
    by (simp add: sdk_accepting_opmode)
  show ?thesis
    using ap_setup_authmode [OF h1, of state_off sdk_accepting sys_plain]
          ap_setup_authmode [OF h2, of state_off sdk_accepting sys_plain] h1 h2 p1 p2 v
    by blast
qed

subsection \<open>Scan completion\<close>

text \<open>
  C7: on scan completion the portable scan callback is called exactly once: with count -1
  and a null result on a vendor error status; with count 0 and a null result on a
  successful scan with no network; with count -1 and a null result when the allocation of
  the result array fails; and otherwise with the length of the vendor list, which is
  positive, and an array of that many entries.
\<close>

theorem scan_done_outcomes:
  "(status \<noteq> OK \<longrightarrow>
      calls_during s (wifi_scan_done e info status s) = [Mgos_wifi_dev_scan_cb (- 1) None]) \<and>
   (status = OK \<and> info = [] \<longrightarrow>
      calls_during s (wifi_scan_done e info status s) = [Mgos_wifi_dev_scan_cb 0 None]) \<and>
   (status = OK \<and> info \<noteq> [] \<and> \<not> calloc_ok e (length info) \<longrightarrow>
      calls_during s (wifi_scan_done e info status s) = [Mgos_wifi_dev_scan_cb (- 1) None]) \<and>
   (status = OK \<and> info \<noteq> [] \<and> calloc_ok e (length info) \<longrightarrow>
      (\<exists>res. calls_during s (wifi_scan_done e info status s) =
               [Mgos_wifi_dev_scan_cb (int (length info)) (Some res)] \<and>
             length res = length info \<and> 0 < int (length info)))"
  by (auto simp: wifi_scan_done_def Let_def calls_during_def trace_emit count_bss_length
        length_fill_results)

theorem scan_done_outcomes_witness:
  "FAIL \<noteq> OK \<and>
   calls_during state_off (wifi_scan_done sys_plain [] FAIL state_off) =
     [Mgos_wifi_dev_scan_cb (- 1) None] \<and>
   calls_during state_off (wifi_scan_done sys_plain [] OK state_off) =
     [Mgos_wifi_dev_scan_cb 0 None] \<and>
   [\<lparr>bss_bssid = [1, 2, 3, 4, 5, 6], bss_ssid = ''net'', bss_channel = 6, bss_rssi = - 60,
     bss_authmode = AUTH_WPA2_PSK\<rparr>] \<noteq> [] \<and>
   \<not> calloc_ok (sys_plain\<lparr>calloc_ok := \<lambda>_. False\<rparr>) 1 \<and>
   calls_during state_off
     (wifi_scan_done (sys_plain\<lparr>calloc_ok := \<lambda>_. False\<rparr>)
        [\<lparr>bss_bssid = [1, 2, 3, 4, 5, 6], bss_ssid = ''net'', bss_channel = 6, bss_rssi = - 60,
          bss_authmode = AUTH_WPA2_PSK\<rparr>] OK state_off) =
     [Mgos_wifi_dev_scan_cb (- 1) None] \<and>
   calloc_ok sys_plain 1 \<and>
   (\<exists>res. calls_during state_off
            (wifi_scan_done sys_plain
               [\<lparr>bss_bssid = [1, 2, 3, 4, 5, 6], bss_ssid = ''net'', bss_channel = 6,
                 bss_rssi = - 60, bss_authmode = AUTH_WPA2_PSK\<rparr>] OK state_off) =
            [Mgos_wifi_dev_scan_cb 1 (Some res)] \<and> length res = 1)"
proof -
  let ?info = "[\<lparr>bss_bssid = [1, 2, 3, 4, 5, 6], bss_ssid = ''net'', bss_channel = 6,
                 bss_rssi = - 60, bss_authmode = AUTH_WPA2_PSK\<rparr>]"
  have c1: "calloc_ok sys_plain 1"
    by (simp add: sys_plain_def)
  have c0: "\<not> calloc_ok (sys_plain\<lparr>calloc_ok := \<lambda>_. False\<rparr>) 1"
    by simp
  show ?thesis
    using scan_done_outcomes [where status = FAIL and s = state_off and e = sys_plain
            and info = "[]"]
          scan_done_outcomes [where status = OK and s = state_off and e = sys_plain
            and info = "[]"]
          scan_done_outcomes [where status = OK and s = state_off
            and e = "sys_plain\<lparr>calloc_ok := \<lambda>_. False\<rparr>" and info = ?info]
          scan_done_outcomes [where status = OK and s = state_off and e = sys_plain
            and info = ?info] c0 c1
    by simp
qed

subsection \<open>Rate limiter\<close>

text \<open>
  C9: a run of the rate limiter makes one vendor limit call per family (11b, 11g, 11n) and
  then writes the enable mask once. In the mask written the station rate-limiting bit is
  set if and only if at least one family has a configured value other than -1 and every
  per-family limit call of the run was accepted by the vendor; in all other cases the bit
  is cleared; the other bits are those the vendor reported. What the vendor answers to the
  per-family calls never changes the result of the enclosing station or access-point
  setup call.
\<close>

theorem rate_limit_mask_bit:
  "(let calls = calls_during s (esp_wifi_set_rate_limits k cfg s);
        configured = (tx_rate_limit_11b cfg \<noteq> - 1 \<or> tx_rate_limit_11g cfg \<noteq> - 1 \<or>
                      tx_rate_limit_11n cfg \<noteq> - 1);
        accepted = list_all (limit_call_ok k) calls
    in List.map_filter limit_call_family calls = [RC_LIMIT_11B, RC_LIMIT_11G, RC_LIMIT_11N] \<and>
       (\<exists>m. List.map_filter mask_written calls = [m] \<and>
            (m AND LIMIT_RATE_MASK_STA = LIMIT_RATE_MASK_STA \<longleftrightarrow> configured \<and> accepted) \<and>
            (m AND LIMIT_RATE_MASK_STA = 0 \<longleftrightarrow> \<not> (configured \<and> accepted)) \<and>
            m AND NOT LIMIT_RATE_MASK_STA =
              wifi_get_user_limit_rate_mask k AND NOT LIMIT_RATE_MASK_STA)) \<and>
   fst (mgos_wifi_dev_sta_setup (k\<lparr>wifi_set_user_rate_limit := f\<rparr>) e sta s') =
     fst (mgos_wifi_dev_sta_setup k e sta s') \<and>
   fst (mgos_wifi_dev_ap_setup (k\<lparr>wifi_set_user_rate_limit := f\<rparr>) e ap s') =
     fst (mgos_wifi_dev_ap_setup k e ap s')"
proof -
  let ?calls = "calls_during s (esp_wifi_set_rate_limits k cfg s)"
  let ?on = "(tx_rate_limit_11b cfg \<noteq> - 1 \<or> tx_rate_limit_11g cfg \<noteq> - 1 \<or>
              tx_rate_limit_11n cfg \<noteq> - 1) \<and> list_all (limit_call_ok k) ?calls"
  let ?m = "if ?on then wifi_get_user_limit_rate_mask k OR LIMIT_RATE_MASK_STA
            else wifi_get_user_limit_rate_mask k AND NOT LIMIT_RATE_MASK_STA"
  have fam: "List.map_filter limit_call_family ?calls = [RC_LIMIT_11B, RC_LIMIT_11G, RC_LIMIT_11N]"
    and wr: "List.map_filter mask_written ?calls = [?m]"
    using rate_limits_mask [of s k cfg] by simp_all
  have set_iff: "?m AND LIMIT_RATE_MASK_STA = LIMIT_RATE_MASK_STA \<longleftrightarrow> ?on"
    using mask_sta_nonzero by (simp add: mask_sta_set mask_sta_clear)
  have clear_iff: "?m AND LIMIT_RATE_MASK_STA = 0 \<longleftrightarrow> \<not> ?on"
    using mask_sta_nonzero by (simp add: mask_sta_set mask_sta_clear)
  have others: "?m AND NOT LIMIT_RATE_MASK_STA =
      wifi_get_user_limit_rate_mask k AND NOT LIMIT_RATE_MASK_STA"
    by (simp add: mask_sta_others)
  have ex: "\<exists>m. List.map_filter mask_written ?calls = [m] \<and>
            (m AND LIMIT_RATE_MASK_STA = LIMIT_RATE_MASK_STA \<longleftrightarrow> ?on) \<and>
            (m AND LIMIT_RATE_MASK_STA = 0 \<longleftrightarrow> \<not> ?on) \<and>
            m AND NOT LIMIT_RATE_MASK_STA =
              wifi_get_user_limit_rate_mask k AND NOT LIMIT_RATE_MASK_STA"
    using wr set_iff clear_iff others by blast
  show ?thesis
    unfolding Let_def
    using fam ex
      sta_setup_ignores_limit_results [where k = k and f = f and e = e and cfg = sta and s = s']
      ap_setup_ignores_limit_results [where k = k and f = f and e = e and cfg = ap and s = s']
    by (intro conjI) assumption+
qed

theorem rate_limit_mask_bit_witness:
  "fst (mgos_wifi_dev_sta_setup (sdk_accepting\<lparr>wifi_set_user_rate_limit := \<lambda>_ _ _ _. False\<rparr>)
          sys_plain sta_cfg_home state_off) =
     fst (mgos_wifi_dev_sta_setup sdk_accepting sys_plain sta_cfg_home state_off) \<and>
   fst (mgos_wifi_dev_sta_setup sdk_accepting sys_plain sta_cfg_home state_off) = Some True \<and>
   List.map_filter mask_written
     (calls_during state_off
        (esp_wifi_set_rate_limits sdk_accepting
           \<lparr>tx_rate_limit_11b = 0x0102, tx_rate_limit_11g = - 1, tx_rate_limit_11n = - 1\<rparr>
           state_off)) = [3] \<and>
   List.map_filter mask_written
     (calls_during state_off
        (esp_wifi_set_rate_limits (sdk_accepting\<lparr>wifi_set_user_rate_limit := \<lambda>_ _ _ _. False\<rparr>)
           \<lparr>tx_rate_limit_11b = 0x0102, tx_rate_limit_11g = - 1, tx_rate_limit_11n = - 1\<rparr>
           state_off)) = [2] \<and>
   List.map_filter mask_written
     (calls_during state_off
        (esp_wifi_set_rate_limits sdk_accepting
           \<lparr>tx_rate_limit_11b = - 1, tx_rate_limit_11g = - 1, tx_rate_limit_11n = - 1\<rparr>
           state_off)) = [2]"
proof -
  have a: "fst (mgos_wifi_dev_sta_setup sdk_accepting sys_plain sta_cfg_home state_off) = Some True"
    by code_simp
  have b: "List.map_filter mask_written
     (calls_during state_off
        (esp_wifi_set_rate_limits sdk_accepting
           \<lparr>tx_rate_limit_11b = 0x0102, tx_rate_limit_11g = - 1, tx_rate_limit_11n = - 1\<rparr>
           state_off)) = [3]"
    by code_simp
  have c: "List.map_filter mask_written
     (calls_during state_off
        (esp_wifi_set_rate_limits (sdk_accepting\<lparr>wifi_set_user_rate_limit := \<lambda>_ _ _ _. False\<rparr>)
           \<lparr>tx_rate_limit_11b = 0x0102, tx_rate_limit_11g = - 1, tx_rate_limit_11n = - 1\<rparr>
           state_off)) = [2]"
    by code_simp
  have d: "List.map_filter mask_written
     (calls_during state_off
        (esp_wifi_set_rate_limits sdk_accepting
           \<lparr>tx_rate_limit_11b = - 1, tx_rate_limit_11g = - 1, tx_rate_limit_11n = - 1\<rparr>
           state_off)) = [2]"
    by code_simp
  show ?thesis
    using rate_limit_mask_bit [where k = sdk_accepting and f = "\<lambda>_ _ _ _. False"
            and e = sys_plain and sta = sta_cfg_home and s' = state_off] a b c d
    by blast
qed

subsection \<open>IP info query\<close>

text \<open>
  C10: for every interface instance, the IP-info query returns success exactly when the
  vendor get-ip-info call succeeds and reports an IP address other than zero; the caller's
  record is left as it was when the query fails, and on success it holds exactly the
  vendor's IP address, netmask and gateway.
\<close>

theorem get_ip_info_result:
  "(fst (mgos_wifi_dev_get_ip_info k if_instance out s) \<longleftrightarrow>
      (\<exists>info. wifi_get_ip_info k (if if_instance = 0 then STATION_IF else SOFTAP_IF) = Some info \<and>
              ip info \<noteq> 0)) \<and>
   (\<not> fst (mgos_wifi_dev_get_ip_info k if_instance out s) \<longrightarrow>
      fst (snd (mgos_wifi_dev_get_ip_info k if_instance out s)) = out) \<and>
   (\<forall>info. fst (mgos_wifi_dev_get_ip_info k if_instance out s) \<and>
           wifi_get_ip_info k (if if_instance = 0 then STATION_IF else SOFTAP_IF) = Some info \<longrightarrow>
      fst (snd (mgos_wifi_dev_get_ip_info k if_instance out s)) =
        \<lparr>net_ip = ip info, net_netmask = netmask info, net_gw = gw info\<rparr>)"
  by (cases out) (auto simp: mgos_wifi_dev_get_ip_info_def Let_def split: option.splits)

theorem get_ip_info_result_witness:
  "fst (mgos_wifi_dev_get_ip_info sdk_accepting 0
          \<lparr>net_ip = 7, net_netmask = 8, net_gw = 9\<rparr> state_off) \<and>
   fst (snd (mgos_wifi_dev_get_ip_info sdk_accepting 0
               \<lparr>net_ip = 7, net_netmask = 8, net_gw = 9\<rparr> state_off)) =
     \<lparr>net_ip = 0x0104A8C0, net_netmask = 0x00FFFFFF, net_gw = 0x0104A8C0\<rparr> \<and>
   \<not> fst (mgos_wifi_dev_get_ip_info sdk_refusing 0
            \<lparr>net_ip = 7, net_netmask = 8, net_gw = 9\<rparr> state_off) \<and>
   fst (snd (mgos_wifi_dev_get_ip_info sdk_refusing 0
               \<lparr>net_ip = 7, net_netmask = 8, net_gw = 9\<rparr> state_off)) =
     \<lparr>net_ip = 7, net_netmask = 8, net_gw = 9\<rparr> \<and>
   \<not> fst (mgos_wifi_dev_get_ip_info
            (sdk_accepting\<lparr>wifi_get_ip_info :=
               \<lambda>_. Some \<lparr>ip = 0, netmask = 0x00FFFFFF, gw = 0x0104A8C0\<rparr>\<rparr>) 1
            \<lparr>net_ip = 7, net_netmask = 8, net_gw = 9\<rparr> state_off) \<and>
   fst (snd (mgos_wifi_dev_get_ip_info
               (sdk_accepting\<lparr>wifi_get_ip_info :=
                  \<lambda>_. Some \<lparr>ip = 0, netmask = 0x00FFFFFF, gw = 0x0104A8C0\<rparr>\<rparr>) 1
               \<lparr>net_ip = 7, net_netmask = 8, net_gw = 9\<rparr> state_off)) =
     \<lparr>net_ip = 7, net_netmask = 8, net_gw = 9\<rparr>"
proof -
  let ?out = "\<lparr>net_ip = 7, net_netmask = 8, net_gw = 9\<rparr>"
  let ?k0 = "sdk_accepting\<lparr>wifi_get_ip_info :=
               \<lambda>_. Some \<lparr>ip = 0, netmask = 0x00FFFFFF, gw = 0x0104A8C0\<rparr>\<rparr>"
  have a: "wifi_get_ip_info sdk_accepting STATION_IF =
      Some \<lparr>ip = 0x0104A8C0, netmask = 0x00FFFFFF, gw = 0x0104A8C0\<rparr>"
    by (simp add: sdk_accepting_def)
  have r: "wifi_get_ip_info sdk_refusing STATION_IF = None"
    by (simp add: sdk_refusing_def)
  have z: "wifi_get_ip_info ?k0 SOFTAP_IF =
      Some \<lparr>ip = 0, netmask = 0x00FFFFFF, gw = 0x0104A8C0\<rparr>"
    by simp
  show ?thesis
    using get_ip_info_result [of sdk_accepting 0 ?out state_off]
          get_ip_info_result [of sdk_refusing 0 ?out state_off]
          get_ip_info_result [of ?k0 1 ?out state_off]
    by (simp add: a r z)
qed

end
